theory Spec2Isabelle
  imports Main
begin

section \<open>The Bitbucket hook of notifico\<close>

text \<open>
  A shallow embedding of \<^verbatim>\<open>notifico/services/hooks/bitbucket.py\<close>:
  \<^verbatim>\<open>simplify_payload\<close>, \<^verbatim>\<open>_make_summary_line\<close>, \<^verbatim>\<open>_make_commit_line\<close> and
  \<^verbatim>\<open>BitbucketHook.handle_request\<close>. The payload is whatever document the JSON decoder
  delivers, so it is modelled as an untyped JSON value and every exception Python raises
  on a value of the wrong kind is a branch of the model.
\<close>

subsection \<open>JSON values and Python's exceptions\<close>

text \<open>
  What \<^verbatim>\<open>json.loads\<close> returns: \<^verbatim>\<open>None\<close>, \<^verbatim>\<open>bool\<close>, \<^verbatim>\<open>int\<close>, \<^verbatim>\<open>unicode\<close>, \<^verbatim>\<open>list\<close> and
  \<^verbatim>\<open>dict\<close> (keys are always strings). A \<^verbatim>\<open>dict\<close> is an association list read with
  \<open>map_of\<close>. Numbers with a fraction or an exponent (Python floats) are not
  represented. Text is a list of code points below 256.
\<close>

datatype json =
    JNull
  | JBool bool
  | JInt int
  | JStr string
  | JArr "json list"
  | JObj "(string \<times> json) list"

datatype error = ValueError | KeyError | TypeError | AttributeError | IndexError

text \<open>Truth value testing: \<^verbatim>\<open>if x:\<close>, \<^verbatim>\<open>not x\<close>, \<^verbatim>\<open>x and y\<close>.\<close>

fun truthy :: "json \<Rightarrow> bool" where
  "truthy JNull = False"
| "truthy (JBool b) = b"
| "truthy (JInt n) = (n \<noteq> 0)"
| "truthy (JStr s) = (s \<noteq> [])"
| "truthy (JArr xs) = (xs \<noteq> [])"
| "truthy (JObj kvs) = (kvs \<noteq> [])"

text \<open>\<^verbatim>\<open>x.get(k, d)\<close>: only a \<^verbatim>\<open>dict\<close> has the method.\<close>

fun py_get :: "json \<Rightarrow> string \<Rightarrow> json \<Rightarrow> error + json" where
  "py_get (JObj kvs) k d = Inr (case map_of kvs k of Some v \<Rightarrow> v | None \<Rightarrow> d)"
| "py_get _ k d = Inl AttributeError"

text \<open>
  \<^verbatim>\<open>x[k]\<close> for a string \<open>k\<close>: a \<^verbatim>\<open>dict\<close> without the key raises \<^verbatim>\<open>KeyError\<close>; a list
  or a string wants an integer index and the other values cannot be subscripted, both
  \<^verbatim>\<open>TypeError\<close>.
\<close>

fun getitem :: "json \<Rightarrow> string \<Rightarrow> error + json" where
  "getitem (JObj kvs) k = (case map_of kvs k of Some v \<Rightarrow> Inr v | None \<Rightarrow> Inl KeyError)"
| "getitem _ k = Inl TypeError"

text \<open>
  \<^verbatim>\<open>for x in v\<close>: the elements of a list, the characters of a string, the keys of a
  \<^verbatim>\<open>dict\<close>; anything else is not iterable.
\<close>

fun iterate :: "json \<Rightarrow> error + json list" where
  "iterate (JArr xs) = Inr xs"
| "iterate (JStr s) = Inr (map (\<lambda>c. JStr [c]) s)"
| "iterate (JObj kvs) = Inr (map JStr (remdups (map fst kvs)))"
| "iterate _ = Inl TypeError"

text \<open>\<^verbatim>\<open>len(v)\<close>.\<close>

fun py_len :: "json \<Rightarrow> error + nat" where
  "py_len (JArr xs) = Inr (length xs)"
| "py_len (JStr s) = Inr (length s)"
| "py_len (JObj kvs) = Inr (length (remdups (map fst kvs)))"
| "py_len _ = Inl TypeError"

text \<open>\<^verbatim>\<open>v[-1]\<close>: a \<^verbatim>\<open>dict\<close> of a JSON document has no key \<open>-1\<close>.\<close>

fun last_item :: "json \<Rightarrow> error + json" where
  "last_item (JArr xs) = (if xs = [] then Inl IndexError else Inr (last xs))"
| "last_item (JStr s) = (if s = [] then Inl IndexError else Inr (JStr [last s]))"
| "last_item (JObj kvs) = Inl KeyError"
| "last_item _ = Inl TypeError"

text \<open>\<^verbatim>\<open>v[:7]\<close>.\<close>

fun first7 :: "json \<Rightarrow> error + json" where
  "first7 (JStr s) = Inr (JStr (take 7 s))"
| "first7 (JArr xs) = Inr (JArr (take 7 xs))"
| "first7 _ = Inl TypeError"

text \<open>
  A list or a \<^verbatim>\<open>dict\<close> cannot be a member of a \<^verbatim>\<open>set\<close> or a key of a \<^verbatim>\<open>dict\<close>
  (\<^verbatim>\<open>TypeError: unhashable type\<close>). Members of a set are compared with \<^verbatim>\<open>==\<close>, which
  identifies \<^verbatim>\<open>True\<close> with \<open>1\<close> and \<^verbatim>\<open>False\<close> with \<open>0\<close>: \<open>set_key\<close> is the member
  as the set sees it.
\<close>

fun hashable :: "json \<Rightarrow> bool" where
  "hashable (JArr xs) = False"
| "hashable (JObj kvs) = False"
| "hashable _ = True"

fun set_key :: "json \<Rightarrow> json" where
  "set_key (JBool b) = JInt (if b then 1 else 0)"
| "set_key v = v"

subsection \<open>Text\<close>

text \<open>
  \<^verbatim>\<open>unicode.lower\<close> and \<^verbatim>\<open>unicode.strip\<close> on code points below 256: the capital
  letters are A to Z and the Latin-1 capitals (\<open>0xC0\<close> to \<open>0xDE\<close> without the
  multiplication sign \<open>0xD7\<close>); the white space is \<open>0x09\<close> to \<open>0x0D\<close>, \<open>0x1C\<close> to
  \<open>0x20\<close>, \<open>0x85\<close> and \<open>0xA0\<close>.
\<close>

definition lower_char :: "char \<Rightarrow> char" where
  "lower_char c =
     (let n = (of_char c :: nat)
      in if (65 \<le> n \<and> n \<le> 90) \<or> (192 \<le> n \<and> n \<le> 214) \<or> (216 \<le> n \<and> n \<le> 222)
         then char_of (n + 32) else c)"

definition lower :: "string \<Rightarrow> string" where
  "lower s = map lower_char s"

definition is_space :: "char \<Rightarrow> bool" where
  "is_space c =
     (let n = (of_char c :: nat)
      in (9 \<le> n \<and> n \<le> 13) \<or> (28 \<le> n \<and> n \<le> 32) \<or> n = 133 \<or> n = 160)"

definition strip_ws :: "string \<Rightarrow> string" where
  "strip_ws s = rev (dropWhile is_space (rev (dropWhile is_space s)))"

text \<open>\<^verbatim>\<open>s.split(',')\<close>: the empty string splits into one empty piece.\<close>

fun split_comma :: "string \<Rightarrow> string list" where
  "split_comma [] = [[]]"
| "split_comma (c # cs) =
     (if c = CHR '','' then [] # split_comma cs
      else (case split_comma cs of
              [] \<Rightarrow> [[c]]
            | piece # pieces \<Rightarrow> (c # piece) # pieces))"

text \<open>\<^verbatim>\<open>u' '.join(line)\<close> on a list of strings.\<close>

fun join_space :: "string list \<Rightarrow> string" where
  "join_space [] = []"
| "join_space [x] = x"
| "join_space (x # y # rest) = x @ '' '' @ join_space (y # rest)"

text \<open>The decimal digits of a length, as \<^verbatim>\<open>format\<close> writes an \<^verbatim>\<open>int\<close>.\<close>

fun decimal :: "nat \<Rightarrow> string" where
  "decimal n =
     (if n < 10 then [char_of (48 + n)]
      else decimal (n div 10) @ [char_of (48 + n mod 10)])"

declare decimal.simps [simp del]

subsection \<open>The normalized event\<close>

text \<open>
  The \<^verbatim>\<open>result\<close> dictionary of \<^verbatim>\<open>simplify_payload\<close>. Its \<^verbatim>\<open>'files'\<close> entry is a
  dictionary of four sets under the keys \<^verbatim>\<open>'all'\<close>, \<^verbatim>\<open>'added'\<close>, \<^verbatim>\<open>'removed'\<close> and
  \<^verbatim>\<open>'modified'\<close>; \<^verbatim>\<open>None\<close> is \<open>JNull\<close>.
\<close>

record file_sets =
  all_files :: "json set"
  added :: "json set"
  removed :: "json set"
  modified :: "json set"

record normalized =
  branch :: json
  tag :: json
  pusher :: json
  files :: file_sets
  original :: json

definition initial_result :: "json \<Rightarrow> normalized" where
  "initial_result payload =
     \<lparr>branch = JNull, tag = JNull, pusher = JNull,
      files = \<lparr>all_files = {}, added = {}, removed = {}, modified = {}\<rparr>,
      original = payload\<rparr>"

text \<open>
  Lines 56 to 58, the body of the loop over a commit's files:
  \<^verbatim>\<open>type_, name = file_['type'], file_['file']\<close>,
  \<^verbatim>\<open>result['files'][type_].add(name)\<close>, \<^verbatim>\<open>result['files']['all'].add(name)\<close>.
  The lookup of \<^verbatim>\<open>type_\<close> comes before the \<^verbatim>\<open>add\<close>; \<^verbatim>\<open>'all'\<close> is one of the four keys.
\<close>

definition add_file :: "file_sets \<Rightarrow> json \<Rightarrow> error + file_sets" where
  "add_file fs file' =
     (case getitem file' ''type'' of Inl e \<Rightarrow> Inl e | Inr type' \<Rightarrow>
     (case getitem file' ''file'' of Inl e \<Rightarrow> Inl e | Inr name \<Rightarrow>
      if \<not> hashable type' then Inl TypeError
      else if type' = JStr ''all'' then
        (if hashable name
         then Inr (fs\<lparr>all_files := insert (set_key name) (all_files fs)\<rparr>)
         else Inl TypeError)
      else if type' = JStr ''added'' then
        (if hashable name
         then Inr (fs\<lparr>added := insert (set_key name) (added fs),
                       all_files := insert (set_key name) (all_files fs)\<rparr>)
         else Inl TypeError)
      else if type' = JStr ''removed'' then
        (if hashable name
         then Inr (fs\<lparr>removed := insert (set_key name) (removed fs),
                       all_files := insert (set_key name) (all_files fs)\<rparr>)
         else Inl TypeError)
      else if type' = JStr ''modified'' then
        (if hashable name
         then Inr (fs\<lparr>modified := insert (set_key name) (modified fs),
                       all_files := insert (set_key name) (all_files fs)\<rparr>)
         else Inl TypeError)
      else Inl KeyError))"

text \<open>Line 55, \<^verbatim>\<open>for file_ in commit.get('files', tuple())\<close>, once the value is iterated.\<close>

fun add_files :: "file_sets \<Rightarrow> json list \<Rightarrow> error + file_sets" where
  "add_files fs [] = Inr fs"
| "add_files fs (file' # rest) =
     (case add_file fs file' of Inl e \<Rightarrow> Inl e | Inr fs' \<Rightarrow> add_files fs' rest)"

text \<open>
  Lines 53 to 64, the body of the loop over the commits. The default \<^verbatim>\<open>tuple()\<close> of
  \<^verbatim>\<open>get\<close> is only iterated, so the empty array stands for it.
\<close>

definition add_commit :: "normalized \<Rightarrow> json \<Rightarrow> error + normalized" where
  "add_commit result commit =
     (case py_get commit ''files'' (JArr []) of Inl e \<Rightarrow> Inl e | Inr fl \<Rightarrow>
     (case iterate fl of Inl e \<Rightarrow> Inl e | Inr entries \<Rightarrow>
     (case add_files (files result) entries of Inl e \<Rightarrow> Inl e | Inr fs \<Rightarrow>
     (case py_get commit ''branch'' JNull of Inl e \<Rightarrow> Inl e | Inr b \<Rightarrow>
      Inr (result\<lparr>files := fs, branch := (if truthy b then b else branch result)\<rparr>)))))"

fun add_commits :: "normalized \<Rightarrow> json list \<Rightarrow> error + normalized" where
  "add_commits result [] = Inr result"
| "add_commits result (commit # rest) =
     (case add_commit result commit of Inl e \<Rightarrow> Inl e
      | Inr result' \<Rightarrow> add_commits result' rest)"

definition simplify_payload :: "json \<Rightarrow> error + normalized" where
  "simplify_payload payload =
     (case py_get payload ''commits'' (JArr []) of Inl e \<Rightarrow> Inl e | Inr cl \<Rightarrow>
     (case iterate cl of Inl e \<Rightarrow> Inl e | Inr commits \<Rightarrow>
     (case add_commits (initial_result payload) commits of Inl e \<Rightarrow> Inl e | Inr result \<Rightarrow>
     (case py_get payload ''user'' JNull of Inl e \<Rightarrow> Inl e | Inr user \<Rightarrow>
      Inr (result\<lparr>pusher := user\<rparr>)))))"

subsection \<open>The hook's collaborators\<close>

text \<open>
  \<^verbatim>\<open>BitbucketConfigForm\<close> gives the hook's configuration its keys and their types; a key
  may be absent from the stored dictionary, and \<^verbatim>\<open>hook.config\<close> itself may be \<^verbatim>\<open>None\<close>.
\<close>

record hook_config =
  branches :: "string option"
  use_colors :: "bool option"
  show_branch :: "bool option"
  show_raw_author :: "bool option"

record hook =
  config :: "hook_config option"

definition empty_config :: hook_config where
  "empty_config =
     \<lparr>branches = None, use_colors = None, show_branch = None, show_raw_author = None\<rparr>"

text \<open>\<^verbatim>\<open>hook.config or {}\<close>.\<close>

definition config_or_empty :: "hook \<Rightarrow> hook_config" where
  "config_or_empty h = (case config h of None \<Rightarrow> empty_config | Some c \<Rightarrow> c)"

text \<open>
  \<^verbatim>\<open>HookService.colors\<close> is not among the sources: the four entries the format strings
  name are parameters.
\<close>

record palette =
  GREY :: string
  BLUE :: string
  TEAL :: string
  LIGHT_GREY :: string

text \<open>
  Modelled from the spec: \<^verbatim>\<open>HookService.message\<close> is not among the sources. The spec's
  NotificationLine is "a single unicode string plus a \<^verbatim>\<open>strip\<close> flag"; the record keeps
  the two arguments of the call \<^verbatim>\<open>cls.message(line, strip=strip)\<close>.
\<close>

record notification =
  message :: string
  strip :: bool

text \<open>
  What the hook calls and does not define: \<^verbatim>\<open>json.loads\<close> (\<open>Inl\<close> is the exception
  it raises), the link shortener \<^verbatim>\<open>BitbucketHook.shorten\<close>, which acts on the world
  outside (\<open>'w\<close>), the colour table, and the text \<^verbatim>\<open>format\<close> writes for a value that
  is not a string.
\<close>

record 'w env =
  loads :: "string \<Rightarrow> error + json"
  shorten :: "string \<Rightarrow> 'w \<Rightarrow> string \<times> 'w"
  colors :: palette
  unicode_of :: "json \<Rightarrow> string"

text \<open>A replacement field of \<^verbatim>\<open>unicode.format\<close>: a string is written as it is.\<close>

definition format_value :: "'w env \<Rightarrow> json \<Rightarrow> string" where
  "format_value env v = (case v of JStr s \<Rightarrow> s | _ \<Rightarrow> unicode_of env v)"

subsection \<open>The summary line and the commit lines\<close>

text \<open>
  \<^verbatim>\<open>_make_summary_line(hook, j, config)\<close>, lines 72 to 128. The subscripts are evaluated
  in the order of the source, so the first one that fails decides the exception. The
  third argument of the link's \<^verbatim>\<open>format\<close>, \<^verbatim>\<open>original['commits'][-1]['node']\<close>, is
  evaluated and then not written: the format string has the fields \<open>{0}\<close> and \<open>{1}\<close>
  only. The shortener is called last, on the finished link. The argument \<^verbatim>\<open>hook\<close> is
  not read by the body and is left out.
\<close>

definition make_summary_line ::
  "'w env \<Rightarrow> normalized \<Rightarrow> hook_config \<Rightarrow> 'w \<Rightarrow> (error + string) \<times> 'w" where
  "make_summary_line env j cfg w =
     (let c = colors env;
          show = (case show_branch cfg of None \<Rightarrow> True | Some b \<Rightarrow> b) in
      case getitem (original j) ''repository'' of Inl e \<Rightarrow> (Inl e, w) | Inr repo \<Rightarrow>
     (case getitem repo ''name'' of Inl e \<Rightarrow> (Inl e, w) | Inr name \<Rightarrow>
     (case getitem (original j) ''commits'' of Inl e \<Rightarrow> (Inl e, w) | Inr commits \<Rightarrow>
     (case py_len commits of Inl e \<Rightarrow> (Inl e, w) | Inr count \<Rightarrow>
     (case getitem (original j) ''canon_url'' of Inl e \<Rightarrow> (Inl e, w) | Inr canon_url \<Rightarrow>
     (case getitem repo ''absolute_url'' of Inl e \<Rightarrow> (Inl e, w) | Inr absolute_url \<Rightarrow>
     (case last_item commits of Inl e \<Rightarrow> (Inl e, w) | Inr last_commit \<Rightarrow>
     (case getitem last_commit ''node'' of Inl e \<Rightarrow> (Inl e, w) | Inr node \<Rightarrow>
      let link = format_value env canon_url @ format_value env absolute_url @ ''commits/'';
          (short, w') = shorten env link w
      in (Inr (join_space
            ([GREY c @ ''['' @ BLUE c @ format_value env name @ GREY c @ '']'']
             @ (if truthy (pusher j)
                then [TEAL c @ format_value env (pusher j) @ GREY c @ '' pushed'']
                else [])
             @ [TEAL c @ decimal count @ GREY c @ '' ''
                @ (if count = 1 then ''commit'' else ''commits'')]
             @ (if show \<and> truthy (branch j)
                then [''to '' @ TEAL c @ format_value env (branch j) @ GREY c]
                else [])
             @ [''[+'' @ decimal (card (added (files j)))
                @ ''/-'' @ decimal (card (removed (files j)))
                @ ''/'' @ [CHR 0xB1] @ decimal (card (modified (files j)))
                @ '']'']
             @ [LIGHT_GREY c @ short @ GREY c])),
          w')))))))))"

text \<open>
  \<^verbatim>\<open>_make_commit_line(hook, j, commit)\<close>, lines 131 to 159. \<^verbatim>\<open>join\<close> raises
  \<^verbatim>\<open>TypeError\<close> on the commit message when it is not a string.
\<close>

definition make_commit_line :: "'w env \<Rightarrow> hook \<Rightarrow> normalized \<Rightarrow> json \<Rightarrow> error + string" where
  "make_commit_line env h j commit =
     (let c = colors env;
          raw = (case show_raw_author (config_or_empty h) of None \<Rightarrow> False | Some b \<Rightarrow> b) in
      case getitem (original j) ''repository'' of Inl e \<Rightarrow> Inl e | Inr repo \<Rightarrow>
     (case getitem repo ''name'' of Inl e \<Rightarrow> Inl e | Inr name \<Rightarrow>
     (case getitem commit (if raw then ''raw_author'' else ''author'') of
        Inl e \<Rightarrow> Inl e | Inr author \<Rightarrow>
     (case getitem commit ''node'' of Inl e \<Rightarrow> Inl e | Inr node \<Rightarrow>
     (case first7 node of Inl e \<Rightarrow> Inl e | Inr node7 \<Rightarrow>
     (case getitem commit ''message'' of Inl e \<Rightarrow> Inl e | Inr msg \<Rightarrow>
     (case msg of
        JStr m \<Rightarrow>
          Inr (join_space
            [GREY c @ ''['' @ BLUE c @ format_value env name @ GREY c @ '']'',
             TEAL c @ format_value env author @ GREY c,
             TEAL c @ format_value env node7 @ GREY c,
             ''-'',
             m])
      | _ \<Rightarrow> Inl TypeError)))))))"

subsection \<open>The dispatch\<close>

text \<open>
  \<^verbatim>\<open>handle_request\<close> is a generator: calling it runs nothing, and consuming it yields
  lines until the body returns or raises. The model is the consumption to the end: the
  lines yielded, then \<open>None\<close> when the body returned and \<open>Some e\<close> when it raised \<open>e\<close>,
  and the world the shortener left.

  Lines 195 and 196, the loop over the commits once \<^verbatim>\<open>original['commits']\<close> is iterated:
\<close>

fun commit_lines ::
  "'w env \<Rightarrow> hook \<Rightarrow> normalized \<Rightarrow> bool \<Rightarrow> json list \<Rightarrow> notification list \<times> error option" where
  "commit_lines env h j s [] = ([], None)"
| "commit_lines env h j s (commit # rest) =
     (case make_commit_line env h j commit of
        Inl e \<Rightarrow> ([], Some e)
      | Inr line \<Rightarrow>
          (let (lines, raised) = commit_lines env h j s rest
           in (\<lparr>message = line, strip = s\<rparr> # lines, raised)))"

text \<open>
  Lines 188 to 192: \<open>Inr True\<close> when the branch filter drops the event. \<^verbatim>\<open>lower\<close> is a
  method of strings only.
\<close>

definition unwanted_branch :: "hook_config \<Rightarrow> normalized \<Rightarrow> error + bool" where
  "unwanted_branch cfg j =
     (case branches cfg of
        None \<Rightarrow> Inr False
      | Some bs \<Rightarrow>
          if bs = [] then Inr False
          else if \<not> truthy (branch j) then Inr False
          else (case branch j of
                  JStr b \<Rightarrow>
                    Inr (lower b \<notin> set (map (\<lambda>b. lower (strip_ws b)) (split_comma bs)))
                | _ \<Rightarrow> Inl AttributeError))"

text \<open>
  \<^verbatim>\<open>BitbucketHook.handle_request(user, request, hook)\<close>, lines 171 to 196. Of the request
  only \<^verbatim>\<open>request.form.get('payload', None)\<close> is read: \<open>None\<close> when the form has no such
  field.
\<close>

definition handle_request ::
  "'w env \<Rightarrow> string option \<Rightarrow> hook \<Rightarrow> 'w \<Rightarrow> (notification list \<times> error option) \<times> 'w" where
  "handle_request env p h w =
     (case p of
        None \<Rightarrow> (([], None), w)
      | Some body \<Rightarrow>
          if body = [] then (([], None), w)
          else
           (case loads env body of Inl e \<Rightarrow> (([], Some e), w) | Inr payload \<Rightarrow>
           (case simplify_payload payload of Inl e \<Rightarrow> (([], Some e), w) | Inr j \<Rightarrow>
           (let cfg = config_or_empty h;
                s = (\<not> (case use_colors cfg of None \<Rightarrow> True | Some b \<Rightarrow> b)) in
           (case getitem (original j) ''commits'' of
              Inl e \<Rightarrow> (([], Some e), w)
            | Inr commits \<Rightarrow>
                if \<not> truthy commits then (([], None), w)
                else
                 (case unwanted_branch cfg j of
                    Inl e \<Rightarrow> (([], Some e), w)
                  | Inr unwanted \<Rightarrow>
                     if unwanted then (([], None), w)
                     else
                      (case make_summary_line env j cfg w of
                         (Inl e, w') \<Rightarrow> (([], Some e), w')
                       | (Inr line, w') \<Rightarrow>
                          (case iterate commits of
                             Inl e \<Rightarrow> (([\<lparr>message = line, strip = s\<rparr>], Some e), w')
                           | Inr cs \<Rightarrow>
                              (let (lines, raised) = commit_lines env h j s cs
                               in ((\<lparr>message = line, strip = s\<rparr> # lines, raised),
                                   w'))))))))))"

subsection \<open>The payload as the claims read it\<close>

text \<open>
  The commits the normalizer loops over, the file entries of a commit, and the type and
  the name an entry declares. They read the payload with the same \<^verbatim>\<open>get\<close>, subscript and
  iteration as the source, and give nothing where the source would raise.
\<close>

definition payload_commits :: "json \<Rightarrow> json list" where
  "payload_commits payload =
     (case py_get payload ''commits'' (JArr []) of Inl e \<Rightarrow> [] | Inr cl \<Rightarrow>
     (case iterate cl of Inl e \<Rightarrow> [] | Inr cs \<Rightarrow> cs))"

definition commit_files :: "json \<Rightarrow> json list" where
  "commit_files commit =
     (case py_get commit ''files'' (JArr []) of Inl e \<Rightarrow> [] | Inr fl \<Rightarrow>
     (case iterate fl of Inl e \<Rightarrow> [] | Inr fs \<Rightarrow> fs))"

definition payload_files :: "json \<Rightarrow> json list" where
  "payload_files payload = concat (map commit_files (payload_commits payload))"

definition entry_type :: "json \<Rightarrow> json" where
  "entry_type f = (case getitem f ''type'' of Inl e \<Rightarrow> JNull | Inr t \<Rightarrow> t)"

definition entry_name :: "json \<Rightarrow> json" where
  "entry_name f = (case getitem f ''file'' of Inl e \<Rightarrow> JNull | Inr n \<Rightarrow> set_key n)"

text \<open>The names of the entries of one type, as a set: the deduplicated union.\<close>

definition names_of_type :: "string \<Rightarrow> json list \<Rightarrow> json set" where
  "names_of_type t fs = set (map entry_name (filter (\<lambda>f. entry_type f = JStr t) fs))"

text \<open>
  The branch a commit declares (\<open>JNull\<close> when it declares none), and the branch of the
  last commit that declares a non-empty one.
\<close>

definition declared_branch :: "json \<Rightarrow> json" where
  "declared_branch commit =
     (case py_get commit ''branch'' JNull of Inl e \<Rightarrow> JNull | Inr b \<Rightarrow> b)"

definition last_declared_branch :: "json list \<Rightarrow> json" where
  "last_declared_branch cs =
     (case filter truthy (map declared_branch cs) of
        [] \<Rightarrow> JNull
      | b # bs \<Rightarrow> last (b # bs))"


definition without_branches :: "hook \<Rightarrow> hook" where
  "without_branches h = h\<lparr>config := map_option (\<lambda>c. c\<lparr>branches := None\<rparr>) (config h)\<rparr>"

text \<open>
  The link of the summary line: \<^verbatim>\<open>canon_url\<close>, the repository's \<^verbatim>\<open>absolute_url\<close> and
  the suffix \<^verbatim>\<open>commits/\<close>, each value as \<^verbatim>\<open>format\<close> writes it.
\<close>

definition field :: "json \<Rightarrow> string \<Rightarrow> json" where
  "field v k = (case getitem v k of Inl e \<Rightarrow> JNull | Inr x \<Rightarrow> x)"

definition commits_link :: "'w env \<Rightarrow> json \<Rightarrow> string" where
  "commits_link env payload =
     format_value env (field payload ''canon_url'')
     @ format_value env (field (field payload ''repository'') ''absolute_url'')
     @ ''commits/''"

text \<open>
  The fields the two line builders subscript: the payload has \<^verbatim>\<open>canon_url\<close> and a
  \<^verbatim>\<open>repository\<close> with \<^verbatim>\<open>name\<close> and \<^verbatim>\<open>absolute_url\<close>; every commit has the author key
  the configuration selects, a \<^verbatim>\<open>node\<close> that can be sliced and a \<^verbatim>\<open>message\<close> that is a
  string.
\<close>

definition has_field :: "json \<Rightarrow> string \<Rightarrow> bool" where
  "has_field v k = (case getitem v k of Inl e \<Rightarrow> False | Inr x \<Rightarrow> True)"

definition commit_renderable :: "hook \<Rightarrow> json \<Rightarrow> bool" where
  "commit_renderable h c =
     (has_field c
        (if (case show_raw_author (config_or_empty h) of None \<Rightarrow> False | Some b \<Rightarrow> b)
         then ''raw_author'' else ''author'')
      \<and> (case getitem c ''node'' of
            Inr (JStr s) \<Rightarrow> True | Inr (JArr xs) \<Rightarrow> True | _ \<Rightarrow> False)
      \<and> (case getitem c ''message'' of Inr (JStr m) \<Rightarrow> True | _ \<Rightarrow> False))"

definition renderable :: "hook \<Rightarrow> json \<Rightarrow> bool" where
  "renderable h payload =
     (has_field payload ''canon_url''
      \<and> has_field (field payload ''repository'') ''name''
      \<and> has_field (field payload ''repository'') ''absolute_url''
      \<and> list_all (commit_renderable h) (payload_commits payload))"

text \<open>
  The shape of a payload under which the normalizer returns: an object whose
  \<^verbatim>\<open>commits\<close>, when present, is an array of objects; the \<^verbatim>\<open>files\<close> of a commit, when
  present, an array of objects; every file entry with a \<^verbatim>\<open>type\<close> among \<^verbatim>\<open>added\<close>,
  \<^verbatim>\<open>removed\<close> and \<^verbatim>\<open>modified\<close> and a \<^verbatim>\<open>file\<close> that a set can hold.
\<close>

definition known_type :: "json \<Rightarrow> bool" where
  "known_type t = (t = JStr ''added'' \<or> t = JStr ''removed'' \<or> t = JStr ''modified'')"

definition file_shaped :: "json \<Rightarrow> bool" where
  "file_shaped f =
     (case f of
        JObj kvs \<Rightarrow>
          (case map_of kvs ''type'' of None \<Rightarrow> False | Some t \<Rightarrow>
          (case map_of kvs ''file'' of None \<Rightarrow> False | Some n \<Rightarrow>
             known_type t \<and> hashable n))
      | _ \<Rightarrow> False)"

definition commit_shaped :: "json \<Rightarrow> bool" where
  "commit_shaped c =
     (case c of
        JObj kvs \<Rightarrow>
          (case map_of kvs ''files'' of
             None \<Rightarrow> True
           | Some (JArr fs) \<Rightarrow> list_all file_shaped fs
           | Some _ \<Rightarrow> False)
      | _ \<Rightarrow> False)"

definition payload_shaped :: "json \<Rightarrow> bool" where
  "payload_shaped p =
     (case p of
        JObj kvs \<Rightarrow>
          (case map_of kvs ''commits'' of
             None \<Rightarrow> True
           | Some (JArr cs) \<Rightarrow> list_all commit_shaped cs
           | Some _ \<Rightarrow> False)
      | _ \<Rightarrow> False)"

text \<open>
  The condition on the file entries alone: every entry of every commit has a \<^verbatim>\<open>type\<close>
  key with one of the three values and a \<^verbatim>\<open>file\<close> key.
\<close>

definition entries_typed :: "json \<Rightarrow> bool" where
  "entries_typed p =
     list_all (\<lambda>f. (case getitem f ''type'' of Inl e \<Rightarrow> False | Inr t \<Rightarrow> known_type t)
                  \<and> (case getitem f ''file'' of Inl e \<Rightarrow> False | Inr n \<Rightarrow> True))
       (payload_files p)"

subsection \<open>An instance for the examples\<close>

text \<open>
  A decoder that returns the document \<open>doc\<close> for the one body \<open>body\<close>, which stands
  for the JSON text of the document, and rejects every other body with \<^verbatim>\<open>ValueError\<close>,
  as \<^verbatim>\<open>json.loads\<close> rejects a malformed body; a shortener that logs the links it is
  given; four colour codes.
\<close>

definition example_colors :: palette where
  "example_colors =
     \<lparr>GREY = ''<grey>'', BLUE = ''<blue>'', TEAL = ''<teal>'', LIGHT_GREY = ''<light>''\<rparr>"

definition example_env :: "string \<Rightarrow> json \<Rightarrow> string list env" where
  "example_env body doc =
     \<lparr>loads = (\<lambda>s. if s = body then Inr doc else Inl ValueError),
      shorten = (\<lambda>url log. (''short:'' @ url, log @ [url])),
      colors = example_colors,
      unicode_of = (\<lambda>v. ''?'')\<rparr>"

text \<open>
  A push of three commits. The first two carry the file entries of the spec's file-set
  example, and the three declare the branches \<open>dev\<close>, the empty string and \<open>b\<close>.
\<close>

definition example_push :: "string \<Rightarrow> json" where
  "example_push b =
     JObj [(''canon_url'', JStr ''https://bitbucket.org''),
           (''user'', JStr ''alice''),
           (''repository'',
              JObj [(''name'', JStr ''proj''), (''absolute_url'', JStr ''/alice/proj/'')]),
           (''commits'', JArr [
              JObj [(''author'', JStr ''alice''), (''raw_author'', JStr ''Alice <a@x.org>''),
                    (''node'', JStr ''0123456789ab''), (''message'', JStr ''first''),
                    (''branch'', JStr ''dev''),
                    (''files'', JArr [JObj [(''type'', JStr ''added''),
                                           (''file'', JStr ''a.py'')]])],
              JObj [(''author'', JStr ''bob''), (''raw_author'', JStr ''Bob <b@x.org>''),
                    (''node'', JStr ''abcdef''), (''message'', JStr ''second''),
                    (''branch'', JStr []),
                    (''files'', JArr [JObj [(''type'', JStr ''modified''),
                                           (''file'', JStr ''a.py'')],
                                     JObj [(''type'', JStr ''removed''),
                                           (''file'', JStr ''b.py'')]])],
              JObj [(''author'', JStr ''bob''), (''raw_author'', JStr ''Bob <b@x.org>''),
                    (''node'', JStr ''ffff''), (''message'', JStr ''third''),
                    (''branch'', JStr b)]])]"

text \<open>A push of one commit that declares no branch.\<close>

definition example_push_no_branch :: json where
  "example_push_no_branch =
     JObj [(''canon_url'', JStr ''https://bitbucket.org''),
           (''repository'',
              JObj [(''name'', JStr ''proj''), (''absolute_url'', JStr ''/alice/proj/'')]),
           (''commits'', JArr [
              JObj [(''author'', JStr ''alice''), (''raw_author'', JStr ''Alice <a@x.org>''),
                    (''node'', JStr ''0123456789ab''), (''message'', JStr ''only'')]])]"

text \<open>A push of three commits of which the second has no \<^verbatim>\<open>author\<close>.\<close>

definition example_push_no_author :: json where
  "example_push_no_author =
     JObj [(''canon_url'', JStr ''https://bitbucket.org''),
           (''user'', JStr ''alice''),
           (''repository'',
              JObj [(''name'', JStr ''proj''), (''absolute_url'', JStr ''/alice/proj/'')]),
           (''commits'', JArr [
              JObj [(''author'', JStr ''alice''), (''raw_author'', JStr ''Alice <a@x.org>''),
                    (''node'', JStr ''0123456789ab''), (''message'', JStr ''first'')],
              JObj [(''raw_author'', JStr ''Bob <b@x.org>''),
                    (''node'', JStr ''abcdef''), (''message'', JStr ''second'')],
              JObj [(''author'', JStr ''bob''), (''raw_author'', JStr ''Bob <b@x.org>''),
                    (''node'', JStr ''ffff''), (''message'', JStr ''third'')]])]"

text \<open>A payload of one commit with one file entry of type \<open>t\<close> and name \<open>n\<close>.\<close>

definition example_one_file :: "json \<Rightarrow> json \<Rightarrow> json" where
  "example_one_file t n =
     JObj [(''commits'', JArr [JObj [(''files'', JArr [JObj [(''type'', t), (''file'', n)]])]])]"

definition example_config :: "string option \<Rightarrow> bool option \<Rightarrow> hook" where
  "example_config bs colours =
     \<lparr>config = Some \<lparr>branches = bs, use_colors = colours,
                      show_branch = None, show_raw_author = None\<rparr>\<rparr>"

section \<open>The normalizer\<close>

subsection \<open>What the loops keep and what they accumulate\<close>

lemma add_commit_original: "add_commit r c = Inr r' \<Longrightarrow> original r' = original r"
  by (auto simp: add_commit_def split: sum.splits)

lemma add_commits_original: "add_commits r cs = Inr r' \<Longrightarrow> original r' = original r"
  by (induction cs arbitrary: r) (auto split: sum.splits dest: add_commit_original)

lemma simplify_payload_original: "simplify_payload payload = Inr j \<Longrightarrow> original j = payload"
  by (auto simp: simplify_payload_def initial_result_def split: sum.splits
      dest: add_commits_original)

lemma simplify_payload_add_commits:
  "simplify_payload payload = Inr j \<Longrightarrow>
   \<exists>r. add_commits (initial_result payload) (payload_commits payload) = Inr r
       \<and> branch j = branch r \<and> files j = files r"
  by (auto simp: simplify_payload_def payload_commits_def split: sum.splits)

lemma add_commit_branch:
  "add_commit r c = Inr r' \<Longrightarrow>
   branch r' = (if truthy (declared_branch c) then declared_branch c else branch r)"
  by (auto simp: add_commit_def declared_branch_def split: sum.splits)

lemma add_commits_branch:
  "add_commits r cs = Inr r' \<Longrightarrow>
   branch r' = (case filter truthy (map declared_branch cs) of
                  [] \<Rightarrow> branch r | b # bs \<Rightarrow> last (b # bs))"
proof (induction cs arbitrary: r)
  case Nil
  then show ?case by simp
next
  case (Cons c cs)
  from Cons.prems obtain r1
    where s: "add_commit r c = Inr r1" and t: "add_commits r1 cs = Inr r'"
    by (auto split: sum.splits)
  from Cons.IH [OF t] add_commit_branch [OF s] show ?case
    by (auto split: list.splits)
qed




lemma add_file_sets:
  assumes "add_file fs f = Inr fs'"
  shows "added fs' = added fs \<union> names_of_type ''added'' [f]"
    and "removed fs' = removed fs \<union> names_of_type ''removed'' [f]"
    and "modified fs' = modified fs \<union> names_of_type ''modified'' [f]"
    and "all_files fs' = insert (entry_name f) (all_files fs)"
  using assms
  by (auto simp: add_file_def names_of_type_def entry_name_def entry_type_def
      split: sum.splits if_splits)

lemma names_of_type_Cons:
  "names_of_type t (f # fs) = names_of_type t [f] \<union> names_of_type t fs"
  by (auto simp: names_of_type_def)

lemma names_of_type_append:
  "names_of_type t (fs @ gs) = names_of_type t fs \<union> names_of_type t gs"
  by (auto simp: names_of_type_def)

lemma add_files_sets:
  "add_files fs es = Inr fs' \<Longrightarrow>
   added fs' = added fs \<union> names_of_type ''added'' es
   \<and> removed fs' = removed fs \<union> names_of_type ''removed'' es
   \<and> modified fs' = modified fs \<union> names_of_type ''modified'' es
   \<and> all_files fs' = all_files fs \<union> set (map entry_name es)"
proof (induction es arbitrary: fs)
  case Nil
  then show ?case by (simp add: names_of_type_def)
next
  case (Cons f es)
  from Cons.prems obtain fs1
    where s: "add_file fs f = Inr fs1" and t: "add_files fs1 es = Inr fs'"
    by (auto split: sum.splits)
  from Cons.IH [OF t] add_file_sets [OF s] show ?case
    by (simp add: names_of_type_Cons [of _ f es] Un_assoc)
qed

lemma add_commit_files:
  "add_commit r c = Inr r' \<Longrightarrow> add_files (files r) (commit_files c) = Inr (files r')"
  by (auto simp: add_commit_def commit_files_def split: sum.splits)

lemma add_commits_sets:
  "add_commits r cs = Inr r' \<Longrightarrow>
   added (files r')
     = added (files r) \<union> names_of_type ''added'' (concat (map commit_files cs))
   \<and> removed (files r')
     = removed (files r) \<union> names_of_type ''removed'' (concat (map commit_files cs))
   \<and> modified (files r')
     = modified (files r) \<union> names_of_type ''modified'' (concat (map commit_files cs))
   \<and> all_files (files r')
     = all_files (files r) \<union> set (map entry_name (concat (map commit_files cs)))"
proof (induction cs arbitrary: r)
  case Nil
  then show ?case by (simp add: names_of_type_def)
next
  case (Cons c cs)
  from Cons.prems obtain r1
    where s: "add_commit r c = Inr r1" and t: "add_commits r1 cs = Inr r'"
    by (auto split: sum.splits)
  from Cons.IH [OF t] add_files_sets [OF add_commit_files [OF s]] show ?case
    by (simp add: names_of_type_append Un_assoc)
qed

lemma simplify_payload_sets:
  assumes "simplify_payload payload = Inr j"
  shows "added (files j) = names_of_type ''added'' (payload_files payload)"
    and "removed (files j) = names_of_type ''removed'' (payload_files payload)"
    and "modified (files j) = names_of_type ''modified'' (payload_files payload)"
    and "all_files (files j) = set (map entry_name (payload_files payload))"
proof -
  from assms obtain r
    where r: "add_commits (initial_result payload) (payload_commits payload) = Inr r"
      and f: "files j = files r"
    using simplify_payload_add_commits by blast
  from add_commits_sets [OF r] f
  show "added (files j) = names_of_type ''added'' (payload_files payload)"
    and "removed (files j) = names_of_type ''removed'' (payload_files payload)"
    and "modified (files j) = names_of_type ''modified'' (payload_files payload)"
    and "all_files (files j) = set (map entry_name (payload_files payload))"
    by (simp_all add: initial_result_def payload_files_def)
qed

text \<open>An entry the loop accepts has one of the four keys of \<^verbatim>\<open>result['files']\<close> as its type.\<close>

lemma add_file_type:
  "add_file fs f = Inr fs' \<Longrightarrow>
   entry_type f \<in> {JStr ''all'', JStr ''added'', JStr ''removed'', JStr ''modified''}"
  by (auto simp: add_file_def entry_type_def split: sum.splits if_splits)

lemma add_files_types:
  "add_files fs es = Inr fs' \<Longrightarrow>
   \<forall>f \<in> set es.
     entry_type f \<in> {JStr ''all'', JStr ''added'', JStr ''removed'', JStr ''modified''}"
proof (induction es arbitrary: fs)
  case Nil
  then show ?case by simp
next
  case (Cons f es)
  from Cons.prems obtain fs1
    where s: "add_file fs f = Inr fs1" and t: "add_files fs1 es = Inr fs'"
    by (auto split: sum.splits)
  from Cons.IH [OF t] add_file_type [OF s] show ?case by simp
qed

lemma add_commits_types:
  "add_commits r cs = Inr r' \<Longrightarrow>
   \<forall>f \<in> set (concat (map commit_files cs)).
     entry_type f \<in> {JStr ''all'', JStr ''added'', JStr ''removed'', JStr ''modified''}"
proof (induction cs arbitrary: r)
  case Nil
  then show ?case by simp
next
  case (Cons c cs)
  from Cons.prems obtain r1
    where s: "add_commit r c = Inr r1" and t: "add_commits r1 cs = Inr r'"
    by (auto split: sum.splits)
  from Cons.IH [OF t] add_files_types [OF add_commit_files [OF s]] show ?case by auto
qed

lemma simplify_payload_types:
  "simplify_payload payload = Inr j \<Longrightarrow>
   \<forall>f \<in> set (payload_files payload).
     entry_type f \<in> {JStr ''all'', JStr ''added'', JStr ''removed'', JStr ''modified''}"
  using simplify_payload_add_commits add_commits_types unfolding payload_files_def by blast

subsection \<open>When the normalizer returns\<close>

lemma add_file_returns: "file_shaped f \<Longrightarrow> \<exists>fs'. add_file fs f = Inr fs'"
  by (auto simp: file_shaped_def add_file_def known_type_def
      split: json.splits option.splits)

lemma add_files_returns: "list_all file_shaped es \<Longrightarrow> \<exists>fs'. add_files fs es = Inr fs'"
proof (induction es arbitrary: fs)
  case Nil
  then show ?case by simp
next
  case (Cons f es)
  then obtain fs1 where "add_file fs f = Inr fs1"
    using add_file_returns [of f fs] by auto
  with Cons show ?case by simp
qed

lemma add_commit_returns: "commit_shaped c \<Longrightarrow> \<exists>r'. add_commit r c = Inr r'"
proof -
  assume c: "commit_shaped c"
  then obtain kvs where kvs: "c = JObj kvs"
    by (auto simp: commit_shaped_def split: json.splits)
  show ?thesis
  proof (cases "map_of kvs ''files''")
    case None
    with kvs show ?thesis by (simp add: add_commit_def)
  next
    case (Some fl)
    with c kvs obtain fs where fl: "fl = JArr fs" and ok: "list_all file_shaped fs"
      by (auto simp: commit_shaped_def split: json.splits)
    from add_files_returns [OF ok] obtain fs' where "add_files (files r) fs = Inr fs'"
      by blast
    with kvs Some fl show ?thesis by (simp add: add_commit_def)
  qed
qed

lemma add_commits_returns: "list_all commit_shaped cs \<Longrightarrow> \<exists>r'. add_commits r cs = Inr r'"
proof (induction cs arbitrary: r)
  case Nil
  then show ?case by simp
next
  case (Cons c cs)
  then obtain r1 where "add_commit r c = Inr r1"
    using add_commit_returns [of c r] by auto
  with Cons show ?case by simp
qed

lemma simplify_payload_returns: "payload_shaped p \<Longrightarrow> \<exists>j. simplify_payload p = Inr j"
proof -
  assume p: "payload_shaped p"
  then obtain kvs where kvs: "p = JObj kvs"
    by (auto simp: payload_shaped_def split: json.splits)
  show ?thesis
  proof (cases "map_of kvs ''commits''")
    case None
    with kvs show ?thesis by (simp add: simplify_payload_def)
  next
    case (Some cl)
    with p kvs obtain cs where cl: "cl = JArr cs" and ok: "list_all commit_shaped cs"
      by (auto simp: payload_shaped_def split: json.splits)
    from add_commits_returns [OF ok] obtain r
      where "add_commits (initial_result p) cs = Inr r"
      by blast
    with kvs Some cl show ?thesis by (simp add: simplify_payload_def)
  qed
qed

lemma example_push_shaped: "payload_shaped (example_push b)"
  by (simp add: example_push_def payload_shaped_def commit_shaped_def file_shaped_def
      known_type_def)

subsection \<open>The branch of the normalized event\<close>

text \<open>
  Claim C5. Whenever the normalizer returns, the branch of its result is the branch of
  the last commit, in payload order, that declares a non-empty one, and \<^verbatim>\<open>None\<close> when
  no commit does. The example that follows is the spec's: commits that declare
  \<open>dev\<close>, the empty string and \<open>main\<close> normalize to \<open>main\<close>.
\<close>

theorem simplify_payload_branch:
  assumes "simplify_payload payload = Inr j"
  shows "branch j = last_declared_branch (payload_commits payload)"
proof -
  from assms obtain r
    where r: "add_commits (initial_result payload) (payload_commits payload) = Inr r"
      and b: "branch j = branch r"
    using simplify_payload_add_commits by blast
  from add_commits_branch [OF r] b show ?thesis
    by (simp add: last_declared_branch_def initial_result_def split: list.splits)
qed

theorem simplify_payload_branch_witness:
  "\<exists>j. simplify_payload (example_push ''main'') = Inr j
      \<and> map declared_branch (payload_commits (example_push ''main''))
          = [JStr ''dev'', JStr [], JStr ''main'']
      \<and> branch j = JStr ''main''"
proof -
  from simplify_payload_returns [OF example_push_shaped]
  obtain j where j: "simplify_payload (example_push ''main'') = Inr j" by blast
  have d: "map declared_branch (payload_commits (example_push ''main''))
             = [JStr ''dev'', JStr [], JStr ''main'']"
    by (simp add: example_push_def payload_commits_def declared_branch_def)
  then have "last_declared_branch (payload_commits (example_push ''main'')) = JStr ''main''"
    by (simp add: last_declared_branch_def)
  with simplify_payload_branch [OF j] j d show ?thesis by simp
qed

subsection \<open>The file sets\<close>

text \<open>
  Claim C6, as amended. Whenever the normalizer returns, each of \<^verbatim>\<open>added\<close>, \<^verbatim>\<open>removed\<close>
  and \<^verbatim>\<open>modified\<close> is the set of the names of the file entries of that type over all
  commits, \<^verbatim>\<open>all\<close> is the set of the names of all file entries and contains the other
  three; it equals their union when no entry declares the type \<^verbatim>\<open>all\<close>, which the
  source accepts as a key of \<^verbatim>\<open>result['files']\<close> as well. The example that follows is
  the spec's: \<open>a.py\<close> is both added and modified.
\<close>

theorem simplify_payload_files:
  assumes "simplify_payload payload = Inr j"
  shows "added (files j) = names_of_type ''added'' (payload_files payload)
       \<and> removed (files j) = names_of_type ''removed'' (payload_files payload)
       \<and> modified (files j) = names_of_type ''modified'' (payload_files payload)
       \<and> all_files (files j) = set (map entry_name (payload_files payload))
       \<and> added (files j) \<union> removed (files j) \<union> modified (files j) \<subseteq> all_files (files j)
       \<and> (list_all (\<lambda>f. entry_type f \<noteq> JStr ''all'') (payload_files payload) \<longrightarrow>
            all_files (files j) = added (files j) \<union> removed (files j) \<union> modified (files j))"
proof -
  note s = simplify_payload_sets [OF assms]
  have sub: "added (files j) \<union> removed (files j) \<union> modified (files j) \<subseteq> all_files (files j)"
    unfolding s by (auto simp: names_of_type_def)
  have sup: "all_files (files j) \<subseteq> added (files j) \<union> removed (files j) \<union> modified (files j)"
    if no_all: "list_all (\<lambda>f. entry_type f \<noteq> JStr ''all'') (payload_files payload)"
  proof
    fix x assume "x \<in> all_files (files j)"
    then obtain f where f: "f \<in> set (payload_files payload)" and x: "x = entry_name f"
      unfolding s by auto
    from no_all f have "entry_type f \<noteq> JStr ''all''" by (simp add: list_all_iff)
    with simplify_payload_types [OF assms] f
    have "entry_type f = JStr ''added'' \<or> entry_type f = JStr ''removed''
            \<or> entry_type f = JStr ''modified''"
      by auto
    with f x show "x \<in> added (files j) \<union> removed (files j) \<union> modified (files j)"
      unfolding s by (auto simp: names_of_type_def)
  qed
  from s sub sup show ?thesis by blast
qed

theorem simplify_payload_files_witness:
  "\<exists>j. simplify_payload (example_push ''main'') = Inr j
      \<and> list_all (\<lambda>f. entry_type f \<noteq> JStr ''all'') (payload_files (example_push ''main''))
      \<and> added (files j) = {JStr ''a.py''}
      \<and> removed (files j) = {JStr ''b.py''}
      \<and> modified (files j) = {JStr ''a.py''}
      \<and> all_files (files j) = {JStr ''a.py'', JStr ''b.py''}
      \<and> all_files (files j) = added (files j) \<union> removed (files j) \<union> modified (files j)"
proof -
  from simplify_payload_returns [OF example_push_shaped]
  obtain j where j: "simplify_payload (example_push ''main'') = Inr j" by blast
  have fs: "payload_files (example_push ''main'')
      = [JObj [(''type'', JStr ''added''), (''file'', JStr ''a.py'')],
         JObj [(''type'', JStr ''modified''), (''file'', JStr ''a.py'')],
         JObj [(''type'', JStr ''removed''), (''file'', JStr ''b.py'')]]"
    by (simp add: example_push_def payload_files_def payload_commits_def commit_files_def)
  have no_all: "list_all (\<lambda>f. entry_type f \<noteq> JStr ''all'')
                  (payload_files (example_push ''main''))"
    unfolding fs by (simp add: entry_type_def)
  have n: "names_of_type ''added'' (payload_files (example_push ''main'')) = {JStr ''a.py''}"
    "names_of_type ''removed'' (payload_files (example_push ''main'')) = {JStr ''b.py''}"
    "names_of_type ''modified'' (payload_files (example_push ''main'')) = {JStr ''a.py''}"
    "set (map entry_name (payload_files (example_push ''main'')))
       = {JStr ''a.py'', JStr ''b.py''}"
    unfolding fs by (auto simp: names_of_type_def entry_type_def entry_name_def)
  from simplify_payload_files [OF j] j no_all n show ?thesis by auto
qed

text \<open>
  The claim as written fails on an entry of type \<^verbatim>\<open>all\<close>: its name is in \<^verbatim>\<open>all\<close> and
  in none of the three typed sets.
\<close>

theorem simplify_payload_type_all:
  "map_sum id files (simplify_payload (example_one_file (JStr ''all'') (JStr ''a.py'')))
     = Inr \<lparr>all_files = {JStr ''a.py''}, added = {}, removed = {}, modified = {}\<rparr>
   \<and> {JStr ''a.py''} \<noteq> ({} :: json set) \<union> {} \<union> {}"
  by (simp add: example_one_file_def simplify_payload_def add_commit_def add_file_def
      initial_result_def)

subsection \<open>Totality of the normalizer\<close>

text \<open>
  Claim C10, as amended. The normalizer returns on every payload of the documented
  shape: an object whose \<^verbatim>\<open>commits\<close>, when present, is an array of objects, the
  \<^verbatim>\<open>files\<close> of each, when present, an array of objects that each have a \<^verbatim>\<open>type\<close> among
  \<^verbatim>\<open>added\<close>, \<^verbatim>\<open>removed\<close> and \<^verbatim>\<open>modified\<close> and a \<^verbatim>\<open>file\<close> that is not a list or an
  object. On a payload with a file entry of the type \<^verbatim>\<open>renamed\<close> it raises \<^verbatim>\<open>KeyError\<close>.
\<close>

theorem simplify_payload_total_on_shaped:
  "(payload_shaped p \<longrightarrow> (\<exists>j. simplify_payload p = Inr j))
   \<and> simplify_payload (example_one_file (JStr ''renamed'') (JStr ''a.py'')) = Inl KeyError"
proof
  show "payload_shaped p \<longrightarrow> (\<exists>j. simplify_payload p = Inr j)"
    using simplify_payload_returns by blast
  show "simplify_payload (example_one_file (JStr ''renamed'') (JStr ''a.py'')) = Inl KeyError"
    by (simp add: example_one_file_def simplify_payload_def add_commit_def add_file_def)
qed

theorem simplify_payload_total_on_shaped_witness:
  "payload_shaped (example_push ''main'')
   \<and> (\<exists>j. simplify_payload (example_push ''main'') = Inr j)"
proof -
  have h: "payload_shaped (example_push ''main'')"
    by (rule example_push_shaped)
  with simplify_payload_total_on_shaped [of "example_push ''main''"] show ?thesis
    by blast
qed

text \<open>
  The condition of the claim as written, on the file entries alone, does not make the
  normalizer return: a \<^verbatim>\<open>file\<close> that is a list cannot be added to a set.
\<close>

theorem simplify_payload_unhashable_name:
  "entries_typed (example_one_file (JStr ''added'') (JArr [JStr ''a.py'']))
   \<and> simplify_payload (example_one_file (JStr ''added'') (JArr [JStr ''a.py'']))
       = Inl TypeError"
  by (simp add: example_one_file_def simplify_payload_def add_commit_def add_file_def
      entries_typed_def payload_files_def payload_commits_def commit_files_def
      known_type_def)

section \<open>The dispatch\<close>

subsection \<open>The lines and the shortener\<close>

lemma join_space_snoc: "xs \<noteq> [] \<Longrightarrow> join_space (xs @ [x]) = join_space xs @ '' '' @ x"
  by (induction xs rule: join_space.induct) auto

lemma make_summary_line_raises: "make_summary_line env j cfg w = (Inl e, w') \<Longrightarrow> w' = w"
  by (auto simp: make_summary_line_def Let_def split: sum.splits prod.splits)

lemma make_summary_line_link:
  assumes "make_summary_line env j cfg w = (Inr line, w')"
  shows "w' = snd (shorten env (commits_link env (original j)) w)"
    and "\<exists>pre. line = pre @ '' '' @ LIGHT_GREY (colors env)
            @ fst (shorten env (commits_link env (original j)) w) @ GREY (colors env)"
proof -
  from assms obtain repo canon_url absolute_url where
    g: "getitem (original j) ''repository'' = Inr repo"
       "getitem (original j) ''canon_url'' = Inr canon_url"
       "getitem repo ''absolute_url'' = Inr absolute_url"
    by (auto simp: make_summary_line_def Let_def split: sum.splits prod.splits)
  then have link: "commits_link env (original j)
      = format_value env canon_url @ format_value env absolute_url @ ''commits/''"
    by (simp add: commits_link_def field_def)
  from assms g show "w' = snd (shorten env (commits_link env (original j)) w)"
    unfolding link
    by (auto simp: make_summary_line_def Let_def split: sum.splits prod.splits)
  from assms g
  show "\<exists>pre. line = pre @ '' '' @ LIGHT_GREY (colors env)
            @ fst (shorten env (commits_link env (original j)) w) @ GREY (colors env)"
    unfolding link
    by (auto simp: make_summary_line_def Let_def join_space_snoc
        simp flip: append_assoc split: sum.splits prod.splits)
qed

lemma commit_lines_strip:
  "commit_lines env h j s cs = (ls, r) \<Longrightarrow> n \<in> set ls \<Longrightarrow> strip n = s"
  by (induction cs arbitrary: ls r) (auto split: sum.splits prod.splits)

lemma commit_lines_complete:
  "commit_lines env h j s cs = (ls, None) \<Longrightarrow>
   length ls = length cs \<and> map (make_commit_line env h j) cs = map (\<lambda>n. Inr (message n)) ls"
  by (induction cs arbitrary: ls) (auto split: sum.splits prod.splits)

text \<open>
  Once the normalizer has returned, \<^verbatim>\<open>original['commits']\<close> iterates to the commits the
  normalizer looped over, and it is true exactly when there is one.
\<close>

lemma simplify_payload_iterate:
  assumes "simplify_payload payload = Inr j" and "getitem payload ''commits'' = Inr commits"
  shows "iterate commits = Inr (payload_commits payload)"
    and "truthy commits \<longleftrightarrow> payload_commits payload \<noteq> []"
proof -
  from assms(2) obtain kvs
    where kvs: "payload = JObj kvs" "map_of kvs ''commits'' = Some commits"
    by (cases payload) (auto split: option.splits)
  with assms(1) obtain cs where cs: "iterate commits = Inr cs"
    by (auto simp: simplify_payload_def split: sum.splits)
  with kvs show "iterate commits = Inr (payload_commits payload)"
    by (simp add: payload_commits_def)
  with cs show "truthy commits \<longleftrightarrow> payload_commits payload \<noteq> []"
    by (cases commits) auto
qed

subsection \<open>The branch filter\<close>

lemma unwanted_branch_JNull: "branch j = JNull \<Longrightarrow> unwanted_branch cfg j = Inr False"
  by (simp add: unwanted_branch_def split: option.splits)

lemma unwanted_branch_None: "branches cfg = None \<Longrightarrow> unwanted_branch cfg j = Inr False"
  by (simp add: unwanted_branch_def)

lemma config_without_branches:
  "config_or_empty (without_branches h) = (config_or_empty h)\<lparr>branches := None\<rparr>"
  by (cases "config h") (simp_all add: config_or_empty_def without_branches_def empty_config_def)

lemma make_summary_line_branches:
  "make_summary_line env j (cfg\<lparr>branches := bs\<rparr>) w = make_summary_line env j cfg w"
  by (simp add: make_summary_line_def)

lemma make_commit_line_without:
  "make_commit_line env (without_branches h) j c = make_commit_line env h j c"
  by (simp add: make_commit_line_def config_without_branches)

lemma commit_lines_without:
  "commit_lines env (without_branches h) j s cs = commit_lines env h j s cs"
  by (induction cs) (simp_all add: make_commit_line_without split: sum.splits)

text \<open>An event the filter lets through is dispatched as if no filter were configured.\<close>

lemma handle_request_unfiltered:
  assumes "loads env body = Inr payload" and "simplify_payload payload = Inr j"
    and "unwanted_branch (config_or_empty h) j = Inr False"
  shows "handle_request env (Some body) h w
          = handle_request env (Some body) (without_branches h) w"
  using assms
  by (simp add: handle_request_def config_without_branches make_summary_line_branches
      commit_lines_without unwanted_branch_None Let_def
      split: sum.splits prod.splits)

text \<open>A payload whose \<^verbatim>\<open>commits\<close> is present and empty yields no line and raises nothing.\<close>

lemma handle_request_no_commits:
  assumes "loads env body = Inr payload" and "simplify_payload payload = Inr j"
    and "getitem payload ''commits'' = Inr commits" and "\<not> truthy commits"
  shows "handle_request env (Some body) h w = (([], None), w)"
  using assms by (simp add: handle_request_def simplify_payload_original)

subsection \<open>When the dispatch runs to its end\<close>

lemma make_commit_line_returns:
  assumes "has_field (field (original j) ''repository'') ''name''" and "commit_renderable h c"
  shows "\<exists>line. make_commit_line env h j c = Inr line"
proof -
  from assms(1) obtain repo name where "getitem (original j) ''repository'' = Inr repo"
    "getitem repo ''name'' = Inr name"
    by (auto simp: has_field_def field_def split: sum.splits)
  with assms(2) show ?thesis
    by (cases "case show_raw_author (config_or_empty h) of None \<Rightarrow> False | Some b \<Rightarrow> b")
       (auto simp: make_commit_line_def commit_renderable_def has_field_def Let_def
        split: sum.splits json.splits)
qed

lemma commit_lines_return:
  assumes "has_field (field (original j) ''repository'') ''name''"
  shows "list_all (commit_renderable h) cs \<Longrightarrow> \<exists>ls. commit_lines env h j s cs = (ls, None)"
proof (induction cs)
  case Nil
  then show ?case by simp
next
  case (Cons c cs)
  then obtain line ls where "make_commit_line env h j c = Inr line"
    "commit_lines env h j s cs = (ls, None)"
    using make_commit_line_returns [OF assms, of h c env] by auto
  then show ?case by simp
qed

text \<open>The normalizer returns only when every commit is an object, so on an array.\<close>

lemma add_commits_objects:
  "add_commits r cs = Inr r' \<Longrightarrow> \<forall>c \<in> set cs. \<exists>kvs. c = JObj kvs"
proof (induction cs arbitrary: r)
  case Nil
  then show ?case by simp
next
  case (Cons c cs)
  from Cons.prems obtain r1
    where s: "add_commit r c = Inr r1" and t: "add_commits r1 cs = Inr r'"
    by (auto split: sum.splits)
  from s have "\<exists>kvs. c = JObj kvs"
    by (cases c) (auto simp: add_commit_def)
  with Cons.IH [OF t] show ?case by simp
qed

lemma iterate_objects:
  "iterate commits = Inr cs \<Longrightarrow> cs \<noteq> [] \<Longrightarrow> \<forall>c \<in> set cs. \<exists>kvs. c = JObj kvs \<Longrightarrow>
   commits = JArr cs"
  by (cases commits) auto

lemma simplify_payload_commits_array:
  assumes "simplify_payload payload = Inr j" and "getitem payload ''commits'' = Inr commits"
    and "truthy commits"
  shows "commits = JArr (payload_commits payload)"
proof -
  from simplify_payload_add_commits [OF assms(1)] obtain r where
    "add_commits (initial_result payload) (payload_commits payload) = Inr r" by blast
  from add_commits_objects [OF this]
  have obj: "\<forall>c \<in> set (payload_commits payload). \<exists>kvs. c = JObj kvs" .
  from simplify_payload_iterate [OF assms(1,2)] assms(3)
  have it: "iterate commits = Inr (payload_commits payload)"
    and ne: "payload_commits payload \<noteq> []" by simp_all
  from iterate_objects [OF it ne obj] show ?thesis .
qed

lemma make_summary_line_returns:
  assumes "simplify_payload payload = Inr j" and "renderable h payload"
    and "payload_commits payload \<noteq> []"
    and "getitem payload ''commits'' = Inr (JArr (payload_commits payload))"
  shows "\<exists>line w'. make_summary_line env j cfg w = (Inr line, w')"
proof -
  note o = simplify_payload_original [OF assms(1)]
  from assms(2) obtain repo name canon_url absolute_url where
    g: "getitem payload ''repository'' = Inr repo" "getitem repo ''name'' = Inr name"
       "getitem payload ''canon_url'' = Inr canon_url"
       "getitem repo ''absolute_url'' = Inr absolute_url"
    by (auto simp: renderable_def has_field_def field_def split: sum.splits)
  from assms(2,3) have "commit_renderable h (last (payload_commits payload))"
    by (simp add: renderable_def list_all_iff)
  then obtain node where n: "getitem (last (payload_commits payload)) ''node'' = Inr node"
    by (auto simp: commit_renderable_def split: sum.splits)
  from g n assms(3,4) o show ?thesis
    by (simp add: make_summary_line_def Let_def split: prod.splits)
qed

lemma handle_request_renders:
  assumes "body \<noteq> []" and "loads env body = Inr payload"
    and "simplify_payload payload = Inr j"
    and "payload_commits payload \<noteq> []"
    and "unwanted_branch (config_or_empty h) j = Inr False"
    and "renderable h payload"
  shows "\<exists>ls w'. handle_request env (Some body) h w = ((ls, None), w')"
proof -
  note o = simplify_payload_original [OF assms(3)]
  from assms(3,4) obtain commits where c: "getitem payload ''commits'' = Inr commits"
    by (cases payload) (auto simp: payload_commits_def split: option.splits)
  from simplify_payload_iterate [OF assms(3) c] assms(4) have t: "truthy commits" by simp
  note a = simplify_payload_commits_array [OF assms(3) c t]
  from make_summary_line_returns
         [OF assms(3,6,4) c [unfolded a],
          where env = env and cfg = "config_or_empty h" and w = w]
  obtain line w' where s: "make_summary_line env j (config_or_empty h) w = (Inr line, w')"
    by blast
  from assms(6) have "has_field (field (original j) ''repository'') ''name''"
    and "list_all (commit_renderable h) (payload_commits payload)"
    by (simp_all add: renderable_def o)
  from commit_lines_return
         [OF this, where env = env
            and s = "\<not> (case use_colors (config_or_empty h) of None \<Rightarrow> True | Some b \<Rightarrow> b)"]
  obtain ls where l: "commit_lines env h j
      (\<not> (case use_colors (config_or_empty h) of None \<Rightarrow> True | Some b \<Rightarrow> b))
      (payload_commits payload) = (ls, None)"
    by blast
  from assms(1,2,3,5) c t s l a o show ?thesis
    by (simp add: handle_request_def Let_def)
qed

text \<open>What a dispatch that ran to its end has yielded.\<close>

lemma handle_request_complete:
  assumes "body \<noteq> []" and "loads env body = Inr payload"
    and "simplify_payload payload = Inr j"
    and "handle_request env (Some body) h w = ((ls, None), w')"
  shows "(ls = [] \<longleftrightarrow>
            payload_commits payload = [] \<or> unwanted_branch (config_or_empty h) j = Inr True)
       \<and> (ls \<noteq> [] \<longrightarrow>
            length ls = length (payload_commits payload) + 1
            \<and> fst (make_summary_line env j (config_or_empty h) w) = Inr (message (hd ls))
            \<and> map (make_commit_line env h j) (payload_commits payload)
                = map (\<lambda>n. Inr (message n)) (tl ls))"
proof -
  from assms obtain commits where c: "getitem payload ''commits'' = Inr commits"
    by (auto simp: handle_request_def Let_def simplify_payload_original split: sum.splits)
  note it = simplify_payload_iterate [OF assms(3) c]
  show ?thesis
  proof (cases "truthy commits")
    case False
    with assms c it show ?thesis
      by (simp add: handle_request_def Let_def simplify_payload_original)
  next
    case True
    with assms c obtain u where u: "unwanted_branch (config_or_empty h) j = Inr u"
      by (auto simp: handle_request_def Let_def simplify_payload_original split: sum.splits)
    show ?thesis
    proof (cases u)
      case True
      with assms c u \<open>truthy commits\<close> show ?thesis
        by (simp add: handle_request_def Let_def simplify_payload_original)
    next
      case False
      with assms c u it \<open>truthy commits\<close> obtain line lines where
        s: "make_summary_line env j (config_or_empty h) w = (Inr line, w')"
        and l: "commit_lines env h j
                  (\<not> (case use_colors (config_or_empty h) of None \<Rightarrow> True | Some b \<Rightarrow> b))
                  (payload_commits payload) = (lines, None)"
        and ls: "ls = \<lparr>message = line,
                   strip = (\<not> (case use_colors (config_or_empty h) of
                                None \<Rightarrow> True | Some b \<Rightarrow> b))\<rparr>
                   # lines"
        by (auto simp: handle_request_def Let_def simplify_payload_original
            split: sum.splits prod.splits)
      from commit_lines_complete [OF l] s ls u False it \<open>truthy commits\<close> show ?thesis
        by simp
    qed
  qed
qed

subsection \<open>The examples, normalized\<close>


lemma example_push_no_branch_normalized:
  "map_sum id branch (simplify_payload example_push_no_branch) = Inr JNull"
  by (simp add: example_push_no_branch_def simplify_payload_def add_commit_def
      initial_result_def)

subsection \<open>A payload body the decoder rejects\<close>

text \<open>
  Claim C1, as amended. A request without a payload field, or with an empty one, yields
  no line and raises nothing. A non-empty body that \<^verbatim>\<open>json.loads\<close> rejects yields no
  line either, but the exception of the decoder leaves \<^verbatim>\<open>handle_request\<close> when its
  output is consumed: line 176 calls the decoder outside any \<^verbatim>\<open>try\<close>.
\<close>

theorem handle_request_malformed:
  "handle_request env None h w = (([], None), w)
   \<and> handle_request env (Some []) h w = (([], None), w)
   \<and> (body \<noteq> [] \<and> loads env body = Inl e \<longrightarrow>
        handle_request env (Some body) h w = (([], Some e), w))"
  by (simp add: handle_request_def)

theorem handle_request_malformed_witness:
  "loads (example_env ''payload'' (example_push ''main'')) ''not json'' = Inl ValueError
   \<and> handle_request (example_env ''payload'' (example_push ''main'')) (Some ''not json'')
         (example_config None None) []
       = (([], Some ValueError), [])"
proof -
  have l: "loads (example_env ''payload'' (example_push ''main'')) ''not json''
             = Inl ValueError"
    by (simp add: example_env_def)
  with handle_request_malformed
         [of "example_env ''payload'' (example_push ''main'')" "example_config None None"
             "[]" "''not json''" ValueError]
  show ?thesis by simp
qed

text \<open>The claim as written fails: consuming the dispatch of an unparsable body raises.\<close>

theorem handle_request_raises_on_malformed:
  "loads (example_env ''payload'' (example_push ''main'')) ''{'' = Inl ValueError
   \<and> snd (fst (handle_request (example_env ''payload'' (example_push ''main'')) (Some ''{'')
                 (example_config None None) []))
       = Some ValueError"
  by (simp add: example_env_def handle_request_def)

subsection \<open>A payload without commits\<close>

text \<open>
  Claim C2. The normalizer accepts a payload that has no \<^verbatim>\<open>commits\<close> key, reading it
  with \<^verbatim>\<open>payload.get('commits', tuple())\<close>, but line 183 of \<^verbatim>\<open>handle_request\<close> subscripts
  \<^verbatim>\<open>original['commits']\<close>: the dispatch of the payload \<open>{}\<close> raises \<^verbatim>\<open>KeyError\<close> instead
  of yielding the empty sequence. (A \<^verbatim>\<open>commits\<close> that is present and empty is the no-op
  the claim describes, lemma \<open>handle_request_no_commits\<close>.)
\<close>

theorem handle_request_commits_absent:
  "simplify_payload (JObj []) = Inr (initial_result (JObj []))
   \<and> handle_request (example_env ''{}'' (JObj [])) (Some ''{}'') (example_config None None) []
       = (([], Some KeyError), [])"
  by (simp add: simplify_payload_def initial_result_def handle_request_def example_env_def)

subsection \<open>The branch filter is a gate on the whole event\<close>



subsection \<open>One summary line and one line per commit\<close>

text \<open>
  Claim C4, as amended. Take a payload the normalizer accepts. When its dispatch runs to
  its end without an exception, it yields no line exactly when the payload has no commit
  or the branch filter drops the event, and otherwise one line more than the payload has
  commits: the summary line first, then the line of each commit in payload order. And
  the dispatch of an event with commits that the filter lets through does run to its
  end, with that many lines, when the payload and its commits have the fields the line
  builders subscript: \<^verbatim>\<open>canon_url\<close>, the repository's \<^verbatim>\<open>name\<close> and \<^verbatim>\<open>absolute_url\<close>, and in
  every commit the author key the configuration selects, a \<^verbatim>\<open>node\<close> that is a string or a
  list and a \<^verbatim>\<open>message\<close> that is a string.
\<close>

theorem handle_request_cardinality:
  assumes "body \<noteq> []" and "loads env body = Inr payload"
    and "simplify_payload payload = Inr j"
  shows "(snd (fst (handle_request env (Some body) h w)) = None \<longrightarrow>
            (fst (fst (handle_request env (Some body) h w)) = [] \<longleftrightarrow>
               payload_commits payload = []
               \<or> unwanted_branch (config_or_empty h) j = Inr True)
            \<and> (fst (fst (handle_request env (Some body) h w)) \<noteq> [] \<longrightarrow>
                 length (fst (fst (handle_request env (Some body) h w)))
                   = length (payload_commits payload) + 1
                 \<and> fst (make_summary_line env j (config_or_empty h) w)
                     = Inr (message (hd (fst (fst (handle_request env (Some body) h w)))))
                 \<and> map (make_commit_line env h j) (payload_commits payload)
                     = map (\<lambda>n. Inr (message n))
                         (tl (fst (fst (handle_request env (Some body) h w))))))
       \<and> (payload_commits payload \<noteq> []
            \<and> unwanted_branch (config_or_empty h) j = Inr False
            \<and> renderable h payload \<longrightarrow>
            snd (fst (handle_request env (Some body) h w)) = None
            \<and> length (fst (fst (handle_request env (Some body) h w)))
                = length (payload_commits payload) + 1)"
proof -
  obtain ls r w' where res: "handle_request env (Some body) h w = ((ls, r), w')"
    by (metis surj_pair)
  have complete: "(ls = [] \<longleftrightarrow>
            payload_commits payload = [] \<or> unwanted_branch (config_or_empty h) j = Inr True)
       \<and> (ls \<noteq> [] \<longrightarrow>
            length ls = length (payload_commits payload) + 1
            \<and> fst (make_summary_line env j (config_or_empty h) w) = Inr (message (hd ls))
            \<and> map (make_commit_line env h j) (payload_commits payload)
                = map (\<lambda>n. Inr (message n)) (tl ls))"
    if "r = None"
    using handle_request_complete [OF assms] res that by blast
  have renders: "r = None"
    if "payload_commits payload \<noteq> []" "unwanted_branch (config_or_empty h) j = Inr False"
      "renderable h payload"
    using handle_request_renders [OF assms that, of w] res by auto
  from complete renders show ?thesis unfolding res by auto
qed

theorem handle_request_cardinality_witness:
  "renderable (example_config None None) (example_push ''main'')
   \<and> length (payload_commits (example_push ''main'')) = 3
   \<and> snd (fst (handle_request (example_env ''payload'' (example_push ''main''))
              (Some ''payload'') (example_config None None) [])) = None
   \<and> length (fst (fst (handle_request (example_env ''payload'' (example_push ''main''))
              (Some ''payload'') (example_config None None) []))) = 4"
proof -
  let ?env = "example_env ''payload'' (example_push ''main'')"
  let ?h = "example_config None None"
  have body: "''payload'' \<noteq> []" by simp
  have l: "loads ?env ''payload'' = Inr (example_push ''main'')"
    by (simp add: example_env_def)
  from simplify_payload_returns [OF example_push_shaped]
  obtain j where j: "simplify_payload (example_push ''main'') = Inr j" by blast
  have n: "length (payload_commits (example_push ''main'')) = 3"
    by (simp add: example_push_def payload_commits_def)
  then have ne: "payload_commits (example_push ''main'') \<noteq> []" by auto
  have u: "unwanted_branch (config_or_empty ?h) j = Inr False"
    by (rule unwanted_branch_None) (simp add: example_config_def config_or_empty_def)
  have rd: "renderable ?h (example_push ''main'')"
    by (simp add: renderable_def commit_renderable_def has_field_def field_def
        payload_commits_def example_push_def example_config_def config_or_empty_def)
  from handle_request_cardinality [OF body l j, of ?h "[]"] ne u rd n show ?thesis
    by simp
qed

text \<open>
  The claim as written fails on an event whose second commit has no \<^verbatim>\<open>author\<close>: the
  normalizer accepts the payload of three commits and no filter is configured, but
  \<^verbatim>\<open>commit['author']\<close> at line 147 raises \<^verbatim>\<open>KeyError\<close> after the summary line and the
  line of the first commit, two lines instead of four.
\<close>

theorem handle_request_raises_part_way:
  "payload_shaped example_push_no_author
   \<and> length (payload_commits example_push_no_author) = 3
   \<and> branches (config_or_empty (example_config None None)) = None
   \<and> length (fst (fst (handle_request (example_env ''payload'' example_push_no_author)
                (Some ''payload'') (example_config None None) []))) = 2
   \<and> snd (fst (handle_request (example_env ''payload'' example_push_no_author)
                (Some ''payload'') (example_config None None) [])) = Some KeyError"
proof -
  have "payload_shaped example_push_no_author"
    by (simp add: example_push_no_author_def payload_shaped_def commit_shaped_def)
  moreover have "length (payload_commits example_push_no_author) = 3"
    by (simp add: example_push_no_author_def payload_commits_def)
  moreover have "branches (config_or_empty (example_config None None)) = None"
    by (simp add: example_config_def config_or_empty_def)
  moreover have "length (fst (fst (handle_request
      (example_env ''payload'' example_push_no_author)
      (Some ''payload'') (example_config None None) []))) = 2"
    by code_simp
  moreover have "snd (fst (handle_request (example_env ''payload'' example_push_no_author)
      (Some ''payload'') (example_config None None) [])) = Some KeyError"
    by code_simp
  ultimately show ?thesis by blast
qed

subsection \<open>The strip flag\<close>

text \<open>
  Claim C7. Every line the dispatch yields, the summary line and each commit line,
  whether or not an exception follows, carries the flag
  \<^verbatim>\<open>strip = not config.get('use_colors', True)\<close>: true exactly when \<^verbatim>\<open>use_colors\<close> is set
  and false.
\<close>

theorem handle_request_strip:
  "\<forall>n \<in> set (fst (fst (handle_request env p h w))).
     strip n = (\<not> (case use_colors (config_or_empty h) of None \<Rightarrow> True | Some b \<Rightarrow> b))"
  unfolding handle_request_def Let_def
  by (auto split: option.splits sum.splits prod.splits if_splits dest: commit_lines_strip)

theorem handle_request_strip_witness:
  "length (fst (fst (handle_request (example_env ''payload'' (example_push ''main''))
       (Some ''payload'') (example_config None (Some False)) []))) = 4
   \<and> list_all strip (fst (fst (handle_request (example_env ''payload'' (example_push ''main''))
       (Some ''payload'') (example_config None (Some False)) [])))
   \<and> list_all (\<lambda>n. \<not> strip n)
       (fst (fst (handle_request (example_env ''payload'' (example_push ''main''))
          (Some ''payload'') (example_config None None) [])))"
proof -
  have len: "length (fst (fst (handle_request (example_env ''payload'' (example_push ''main''))
       (Some ''payload'') (example_config None (Some False)) []))) = 4"
    by code_simp
  from handle_request_strip
         [of "example_env ''payload'' (example_push ''main'')" "Some ''payload''"
             "example_config None (Some False)" "[]"]
       handle_request_strip
         [of "example_env ''payload'' (example_push ''main'')" "Some ''payload''"
             "example_config None None" "[]"]
       len
  show ?thesis
    by (simp add: list_all_iff example_config_def config_or_empty_def)
qed

subsection \<open>The link of the summary line\<close>

text \<open>
  Claim C8. Whenever the dispatch of a payload yields a line, the first one, the summary
  line, ends with a space and the shortened link in its colour pair \<^verbatim>\<open>LIGHT_GREY\<close>,
  \<^verbatim>\<open>GREY\<close>; the shortener was given \<^verbatim>\<open>canon_url\<close>, the repository's \<^verbatim>\<open>absolute_url\<close>
  and \<^verbatim>\<open>commits/\<close> concatenated, and the world is the one this single call left. When no
  line is yielded the shortener was not called.
\<close>

theorem handle_request_link:
  assumes "loads env body = Inr payload"
    and "handle_request env (Some body) h w = ((ls, r), w')"
  shows "(ls = [] \<longrightarrow> w' = w)
       \<and> (ls \<noteq> [] \<longrightarrow>
            w' = snd (shorten env (commits_link env payload) w)
            \<and> (\<exists>pre. message (hd ls) = pre @ '' '' @ LIGHT_GREY (colors env)
                  @ fst (shorten env (commits_link env payload) w) @ GREY (colors env)))"
proof (cases "ls = []")
  case True
  with assms show ?thesis
    by (auto simp: handle_request_def Let_def
        split: sum.splits prod.splits if_splits dest: make_summary_line_raises)
next
  case False
  with assms obtain j line where j: "simplify_payload payload = Inr j"
    and line: "make_summary_line env j (config_or_empty h) w = (Inr line, w')"
    and hd: "message (hd ls) = line"
    by (auto simp: handle_request_def Let_def split: sum.splits prod.splits if_splits)
  from make_summary_line_link [OF line] simplify_payload_original [OF j] hd False
  show ?thesis by simp
qed

theorem handle_request_link_witness:
  "commits_link (example_env ''payload'' (example_push ''main'')) (example_push ''main'')
     = ''https://bitbucket.org'' @ ''/alice/proj/'' @ ''commits/''
   \<and> snd (handle_request (example_env ''payload'' (example_push ''main'')) (Some ''payload'')
            (example_config None None) [])
       = [''https://bitbucket.org/alice/proj/commits/'']
   \<and> (\<exists>pre. message (hd (fst (fst (handle_request
            (example_env ''payload'' (example_push ''main'')) (Some ''payload'')
            (example_config None None) []))))
         = pre @ '' <light>short:https://bitbucket.org/alice/proj/commits/<grey>'')"
proof -
  let ?env = "example_env ''payload'' (example_push ''main'')"
  let ?r = "handle_request ?env (Some ''payload'') (example_config None None) []"
  have l: "loads ?env ''payload'' = Inr (example_push ''main'')"
    by (simp add: example_env_def)
  have r: "?r = ((fst (fst ?r), snd (fst ?r)), snd ?r)" by simp
  have ne: "fst (fst ?r) \<noteq> []" by code_simp
  have link: "commits_link ?env (example_push ''main'')
                = ''https://bitbucket.org'' @ ''/alice/proj/'' @ ''commits/''"
    by (simp add: commits_link_def field_def format_value_def example_push_def)
  have sh: "shorten ?env = (\<lambda>url log. (''short:'' @ url, log @ [url]))"
    and co: "LIGHT_GREY (colors ?env) = ''<light>''" "GREY (colors ?env) = ''<grey>''"
    by (simp_all add: example_env_def example_colors_def)
  from handle_request_link [OF l r] ne link
  show ?thesis unfolding sh co by simp
qed

subsection \<open>An event without a branch passes the filter\<close>

text \<open>
  Claim C9. When no commit declared a non-empty branch, so that the branch of the
  normalized event is \<^verbatim>\<open>None\<close>, the dispatch is that of the same hook without a branch
  filter, whatever \<^verbatim>\<open>branches\<close> the configuration has.
\<close>

theorem handle_request_branch_unset:
  assumes "loads env body = Inr payload" and "simplify_payload payload = Inr j"
    and "branch j = JNull"
  shows "handle_request env (Some body) h w
          = handle_request env (Some body) (without_branches h) w"
  by (rule handle_request_unfiltered [OF assms(1,2) unwanted_branch_JNull [OF assms(3)]])

theorem handle_request_branch_unset_witness:
  "handle_request (example_env ''payload'' example_push_no_branch) (Some ''payload'')
      (example_config (Some ''master'') None) []
     = handle_request (example_env ''payload'' example_push_no_branch) (Some ''payload'')
         (without_branches (example_config (Some ''master'') None)) []
   \<and> length (fst (fst (handle_request (example_env ''payload'' example_push_no_branch)
        (Some ''payload'') (example_config (Some ''master'') None) []))) = 2"
proof -
  have l: "loads (example_env ''payload'' example_push_no_branch) ''payload''
             = Inr example_push_no_branch"
    by (simp add: example_env_def)
  have "payload_shaped example_push_no_branch"
    by (simp add: example_push_no_branch_def payload_shaped_def commit_shaped_def)
  from simplify_payload_returns [OF this]
  obtain j where j: "simplify_payload example_push_no_branch = Inr j" by blast
  with example_push_no_branch_normalized have b: "branch j = JNull" by simp
  have len: "length (fst (fst (handle_request (example_env ''payload'' example_push_no_branch)
        (Some ''payload'') (example_config (Some ''master'') None) []))) = 2"
    by code_simp
  from handle_request_branch_unset [OF l j b] len show ?thesis by simp
qed

end
